theory Spec2Isabelle
  imports Complex_Main
begin

section \<open>Investment calculator: the financial formulas\<close>

text \<open>
  A shallow embedding of \<^verbatim>\<open>calculatePMT\<close>, \<^verbatim>\<open>calculateInvestment\<close> and
  \<^verbatim>\<open>generateCashFlowProjection\<close> (utils/calculations) and of \<^verbatim>\<open>getItpRate\<close>
  (data/itpTable.js).

  A JavaScript number is modelled as a \<^typ>\<open>real\<close>: the arithmetic is exact.  A
  division in JavaScript never throws; by zero it yields NaN or an infinity.  Every
  division of the source whose divisor could be zero sits behind a guard of the source,
  which the model keeps; the two yields, whose guard is a property of its own, are
  computed with the quotient \<open>js_divide\<close>, in which a division by zero shows.
  Where a property depends on the rounding of the source's doubles (the averaged split
  of the mortgage payment), those lines are modelled a second time with every
  operation rounded to the nearest double.
\<close>

subsection \<open>Division\<close>

text \<open>
  The result of a division: a finite number, or one of the three values that are not
  finite.
\<close>

datatype js_number = Finite real | NaN | PlusInfinity | MinusInfinity

text \<open>
  \<^verbatim>\<open>a / b\<close> as JavaScript evaluates it.  By zero, \<^verbatim>\<open>0 / 0\<close> is NaN and any other
  dividend gives an infinity, of the dividend's sign (the zero divisor taken as \<open>+0\<close>).
\<close>

definition js_divide :: "real \<Rightarrow> real \<Rightarrow> js_number" where
  "js_divide a b =
     (if b \<noteq> 0 then Finite (a / b)
      else if a = 0 then NaN
      else if a > 0 then PlusInfinity
      else MinusInfinity)"

subsection \<open>The Math object\<close>

text \<open>
  \<^verbatim>\<open>Math.pow(x, y)\<close> for a positive base \<open>x\<close> is the real power; the one call site,
  in \<^verbatim>\<open>calculatePMT\<close>, has the base \<open>1 + monthlyRate\<close> above 1.
\<close>

definition Math_pow :: "real \<Rightarrow> real \<Rightarrow> real" where
  "Math_pow x y = x powr y"

text \<open>
  \<^verbatim>\<open>Math.round(x)\<close> is the integer nearest to \<open>x\<close>, a tie going up
  (towards \<open>+\<infinity>\<close>): \<open>\<lfloor>x + 1/2\<rfloor>\<close>.
\<close>

definition Math_round :: "real \<Rightarrow> int" where
  "Math_round x = \<lfloor>x + 1 / 2\<rfloor>"

subsection \<open>calculatePMT\<close>

text \<open>
  \<^verbatim>\<open>
  export const calculatePMT = (annualRate, years, principal) => {
      if (principal <= 0 || years <= 0) return 0;
      if (annualRate <= 0) return principal / (years * 12);
      const monthlyRate = annualRate / 12;
      const totalPayments = years * 12;
      return principal * monthlyRate * Math.pow(1 + monthlyRate, totalPayments)
          / (Math.pow(1 + monthlyRate, totalPayments) - 1);
  };
  \<close>
\<close>

definition calculatePMT :: "real \<Rightarrow> real \<Rightarrow> real \<Rightarrow> real" where
  "calculatePMT annualRate years principal =
     (if principal \<le> 0 \<or> years \<le> 0 then 0
      else if annualRate \<le> 0 then principal / (years * 12)
      else
        let monthlyRate = annualRate / 12;
            totalPayments = years * 12
        in principal * monthlyRate * Math_pow (1 + monthlyRate) totalPayments
             / (Math_pow (1 + monthlyRate) totalPayments - 1))"
  for principal :: real

subsection \<open>calculateInvestment\<close>

text \<open>
  The argument of \<^verbatim>\<open>calculateInvestment\<close> is an object that is destructured with
  defaults: a property that is absent (\<^verbatim>\<open>undefined\<close>) takes its default.  A property
  is therefore an optional number, \<open>None\<close> for an absent one.
\<close>

record inputs =
  precioCompra :: "real option"
  itpRate :: "real option"
  gastos :: "real option"
  gastosHipoteca :: "real option"
  costeReforma :: "real option"
  comision :: "real option"
  mobiliario :: "real option"
  cuotaAlquiler :: "real option"
  revalorizacion :: "real option"
  porcentajeFinanciado :: "real option"
  plazoHipoteca :: "real option"
  tipoInteres :: "real option"
  impuestosAnuales :: "real option"
  segurosAnuales :: "real option"
  comunidadAnual :: "real option"
  mantenimientoAnual :: "real option"
  periodosVacioAnual :: "real option"

text \<open>The object \<^verbatim>\<open>{}\<close>: every property absent.\<close>

definition no_inputs :: inputs where
  "no_inputs =
     \<lparr>precioCompra = None, itpRate = None, gastos = None, gastosHipoteca = None,
      costeReforma = None, comision = None, mobiliario = None, cuotaAlquiler = None,
      revalorizacion = None, porcentajeFinanciado = None, plazoHipoteca = None,
      tipoInteres = None, impuestosAnuales = None, segurosAnuales = None,
      comunidadAnual = None, mantenimientoAnual = None, periodosVacioAnual = None\<rparr>"

text \<open>The destructuring default \<^verbatim>\<open>{ p = d } = inputs\<close>.\<close>

definition default_to :: "real \<Rightarrow> real option \<Rightarrow> real" where
  "default_to d p = (case p of None \<Rightarrow> d | Some v \<Rightarrow> v)"

record results =
  impuestoITP :: real
  totalCompra :: real
  hipoteca :: real
  capitalAportar :: real
  cuotaHipotecaMensual :: real
  cuotaHipotecaAnual :: real
  interesesPromedioMensual :: real
  interesesPromedioAnual :: real
  amortizacionPromedioMensual :: real
  amortizacionPromedioAnual :: real
  totalGastosMensual :: real
  totalGastosAnual :: real
  ingresoAnual :: real
  rentabilidadBruta :: js_number
  rentabilidadNeta :: js_number
  cashFlowMensual :: real
  cashFlowAnual :: real
  per :: real
  porcentajeHipotecaAlquiler :: real
  cashFlowAlquiler :: real
  cashOnCash :: real
  roce :: real
  rentabilidadTotal :: real

text \<open>
  The body of \<^verbatim>\<open>calculateInvestment\<close>, one \<open>let\<close> for each \<^verbatim>\<open>const\<close> of the source,
  in the source's order.  The names bound by the \<open>let\<close> are those of the source; on
  the right of the first seventeen bindings the same name is the property read from
  \<open>inputs\<close>.  The literal \<^verbatim>\<open>0\<close> of a yield's guarded branch is \<open>Finite 0\<close>.
\<close>

definition calculateInvestment :: "inputs \<Rightarrow> results" where
  "calculateInvestment inputs =
    (let precioCompra = default_to 0 (precioCompra inputs);
         itpRate = default_to (10 / 100) (itpRate inputs);
         gastos = default_to 0 (gastos inputs);
         gastosHipoteca = default_to 0 (gastosHipoteca inputs);
         costeReforma = default_to 0 (costeReforma inputs);
         comision = default_to 0 (comision inputs);
         mobiliario = default_to 0 (mobiliario inputs);
         cuotaAlquiler = default_to 0 (cuotaAlquiler inputs);
         revalorizacion = default_to 0 (revalorizacion inputs);
         porcentajeFinanciado = default_to 0 (porcentajeFinanciado inputs);
         plazoHipoteca = default_to 30 (plazoHipoteca inputs);
         tipoInteres = default_to (2 / 100) (tipoInteres inputs);
         impuestosAnuales = default_to 0 (impuestosAnuales inputs);
         segurosAnuales = default_to 0 (segurosAnuales inputs);
         comunidadAnual = default_to 0 (comunidadAnual inputs);
         mantenimientoAnual = default_to 0 (mantenimientoAnual inputs);
         periodosVacioAnual = default_to 0 (periodosVacioAnual inputs);

         impuestoITP = precioCompra * itpRate;
         totalCompra = precioCompra + impuestoITP + gastos + gastosHipoteca
                         + costeReforma + comision + mobiliario;

         hipoteca = precioCompra * porcentajeFinanciado;
         capitalAportar = totalCompra - hipoteca;
         cuotaHipotecaMensual = calculatePMT tipoInteres plazoHipoteca hipoteca;
         cuotaHipotecaAnual = cuotaHipotecaMensual * 12;
         interesesPromedioMensual =
           (if hipoteca > 0 \<and> plazoHipoteca > 0
            then ((cuotaHipotecaMensual * 12 * plazoHipoteca) - hipoteca) / (plazoHipoteca * 12)
            else 0);
         interesesPromedioAnual = interesesPromedioMensual * 12;
         amortizacionPromedioMensual = cuotaHipotecaMensual - interesesPromedioMensual;
         amortizacionPromedioAnual = amortizacionPromedioMensual * 12;

         totalGastosMensual =
           (impuestosAnuales + segurosAnuales + comunidadAnual + mantenimientoAnual
              + periodosVacioAnual) / 12;
         totalGastosAnual =
           impuestosAnuales + segurosAnuales + comunidadAnual + mantenimientoAnual
             + periodosVacioAnual;

         ingresoAnual = cuotaAlquiler * 12;

         rentabilidadBruta =
           (if totalCompra > 0 then js_divide ingresoAnual totalCompra else Finite 0);
         rentabilidadNeta =
           (if totalCompra > 0
            then js_divide (ingresoAnual - totalGastosAnual - interesesPromedioAnual) totalCompra
            else Finite 0);
         cashFlowMensual = cuotaAlquiler - cuotaHipotecaMensual - totalGastosMensual;
         cashFlowAnual = cashFlowMensual * 12;
         per = (if ingresoAnual > 0 then totalCompra / ingresoAnual else 0);
         porcentajeHipotecaAlquiler =
           (if cuotaAlquiler > 0 then cuotaHipotecaMensual / cuotaAlquiler else 0);
         cashFlowAlquiler = (if cuotaAlquiler > 0 then cashFlowMensual / cuotaAlquiler else 0);
         cashOnCash = (if capitalAportar > 0 then (12 * cashFlowMensual) / capitalAportar else 0);
         roce =
           (if capitalAportar > 0
            then (12 * (cashFlowMensual + amortizacionPromedioMensual)) / capitalAportar
            else 0);
         rentabilidadTotal =
           (if capitalAportar > 0
            then ((ingresoAnual - totalGastosAnual - interesesPromedioAnual) / capitalAportar)
                   + revalorizacion
            else 0)
     in \<lparr>impuestoITP = impuestoITP,
         totalCompra = totalCompra,
         hipoteca = hipoteca,
         capitalAportar = capitalAportar,
         cuotaHipotecaMensual = cuotaHipotecaMensual,
         cuotaHipotecaAnual = cuotaHipotecaAnual,
         interesesPromedioMensual = interesesPromedioMensual,
         interesesPromedioAnual = interesesPromedioAnual,
         amortizacionPromedioMensual = amortizacionPromedioMensual,
         amortizacionPromedioAnual = amortizacionPromedioAnual,
         totalGastosMensual = totalGastosMensual,
         totalGastosAnual = totalGastosAnual,
         ingresoAnual = ingresoAnual,
         rentabilidadBruta = rentabilidadBruta,
         rentabilidadNeta = rentabilidadNeta,
         cashFlowMensual = cashFlowMensual,
         cashFlowAnual = cashFlowAnual,
         per = per,
         porcentajeHipotecaAlquiler = porcentajeHipotecaAlquiler,
         cashFlowAlquiler = cashFlowAlquiler,
         cashOnCash = cashOnCash,
         roce = roce,
         rentabilidadTotal = rentabilidadTotal\<rparr>)"

text \<open>
  The inputs of the end-to-end scenario; the properties it does not set (the mortgage
  set-up costs and the five annual expenses) are absent.
\<close>

definition scenario :: inputs where
  "scenario =
     no_inputs\<lparr>precioCompra := Some 105000, itpRate := Some (10 / 100), gastos := Some 4000,
       costeReforma := Some 20000, comision := Some 1500, mobiliario := Some 4000,
       cuotaAlquiler := Some 1100, revalorizacion := Some (2 / 100),
       porcentajeFinanciado := Some (5 / 10), plazoHipoteca := Some 30,
       tipoInteres := Some (2 / 100)\<rparr>"

subsection \<open>The averaged split in double arithmetic\<close>

text \<open>
  The source computes with IEEE 754 binary64 numbers: an arithmetic operation returns
  the double nearest to the exact result, a tie going to the even significand.
  \<open>fl x\<close> is that double, for a result in the normal range (53 significant bits;
  overflow and subnormal numbers are outside the model).
\<close>

definition round_ties_even :: "real \<Rightarrow> int" where
  "round_ties_even x =
     (let f = \<lfloor>x\<rfloor>; d = x - of_int f
      in if d < 1 / 2 then f
         else if d > 1 / 2 then f + 1
         else if even f then f else f + 1)"

definition binade :: "real \<Rightarrow> int" where
  "binade x = \<lfloor>log 2 \<bar>x\<bar>\<rfloor>"

definition fl :: "real \<Rightarrow> real" where
  "fl x =
     (if x = 0 then 0
      else let ulp = 2 powi (binade x - 52)
           in of_int (round_ties_even (x / ulp)) * ulp)"

text \<open>The unit roundoff of binary64: half the gap between 1 and the next double.\<close>

definition unit_roundoff :: real where
  "unit_roundoff = 1 / 2 ^ 53"

text \<open>
  The lines of \<^verbatim>\<open>calculateInvestment\<close> that split the payment, with every operation
  rounded, as functions of the three doubles they read:
  \<^verbatim>\<open>
    const interesesPromedioMensual = hipoteca > 0 && plazoHipoteca > 0
        ? ((cuotaHipotecaMensual * 12 * plazoHipoteca) - hipoteca) / (plazoHipoteca * 12)
        : 0;
    const amortizacionPromedioMensual = cuotaHipotecaMensual - interesesPromedioMensual;
  \<close>
\<close>

definition interesesPromedioMensual_double :: "real \<Rightarrow> real \<Rightarrow> real \<Rightarrow> real" where
  "interesesPromedioMensual_double hipoteca plazoHipoteca cuotaHipotecaMensual =
     (if hipoteca > 0 \<and> plazoHipoteca > 0
      then fl (fl (fl (fl (cuotaHipotecaMensual * 12) * plazoHipoteca) - hipoteca)
             / fl (plazoHipoteca * 12))
      else 0)"
  for hipoteca plazoHipoteca cuotaHipotecaMensual :: real

definition amortizacionPromedioMensual_double :: "real \<Rightarrow> real \<Rightarrow> real \<Rightarrow> real" where
  "amortizacionPromedioMensual_double hipoteca plazoHipoteca cuotaHipotecaMensual =
     fl (cuotaHipotecaMensual
           - interesesPromedioMensual_double hipoteca plazoHipoteca cuotaHipotecaMensual)"
  for hipoteca plazoHipoteca cuotaHipotecaMensual :: real

subsection \<open>generateCashFlowProjection\<close>

text \<open>One element of the projection: \<^verbatim>\<open>{ year, cashFlow, accumulated }\<close>.\<close>

record point =
  year :: string
  cashFlow :: int
  accumulated :: int

text \<open>
  The template literal renders the loop counter, a positive integer, in decimal.
\<close>

definition digit_char :: "nat \<Rightarrow> char" where
  "digit_char d = ''0123456789'' ! d"

fun decimal :: "nat \<Rightarrow> string" where
  "decimal n = (if n < 10 then [digit_char n] else decimal (n div 10) @ [digit_char (n mod 10)])"

declare decimal.simps [simp del]

text \<open>
  The label of a point: the bytes before \<^verbatim>\<open>${year}\<close> as they stand in the source file
  (41 C3 83 C2 B1 6F 20), then the counter.
\<close>

definition year_label :: "int \<Rightarrow> string" where
  "year_label n =
     [CHR 0x41, CHR 0xC3, CHR 0x83, CHR 0xC2, CHR 0xB1, CHR 0x6F, CHR 0x20] @ decimal (nat n)"

text \<open>
  The variables of the loop: \<^verbatim>\<open>year\<close>, \<^verbatim>\<open>currentRent\<close>, \<^verbatim>\<open>accumulatedCashFlow\<close> and
  \<^verbatim>\<open>projection\<close>.
\<close>

type_synonym loop_state = "int \<times> real \<times> real \<times> point list"

text \<open>
  One pass through the body of the \<^verbatim>\<open>for\<close> loop, the increment \<^verbatim>\<open>year++\<close> included:
  \<^verbatim>\<open>
      if (year > 1) {
          currentRent *= (1 + revalorizacion);
      }
      accumulatedCashFlow += currentRent;
      projection.push({
          year: `... ${year}`,
          cashFlow: Math.round(currentRent),
          accumulated: Math.round(accumulatedCashFlow),
      });
  \<close>
\<close>

definition loop_body :: "real \<Rightarrow> loop_state \<Rightarrow> loop_state" where
  "loop_body revalorizacion =
     (\<lambda>(year, currentRent, accumulatedCashFlow, projection).
        let currentRent =
              (if year > 1 then currentRent * (1 + revalorizacion) else currentRent);
            accumulatedCashFlow = accumulatedCashFlow + currentRent;
            projection = projection @
              [\<lparr>year = year_label year,
                cashFlow = Math_round currentRent,
                accumulated = Math_round accumulatedCashFlow\<rparr>]
        in (year + 1, currentRent, accumulatedCashFlow, projection))"
  for revalorizacion :: real

text \<open>
  \<^verbatim>\<open>for (let year = 1; year <= years; year++) { ... }\<close>, from any state: the body runs
  while \<^verbatim>\<open>year <= years\<close>.  The counter is an integer, the bound \<^verbatim>\<open>years\<close> any number.
\<close>

function for_loop :: "real \<Rightarrow> real \<Rightarrow> loop_state \<Rightarrow> loop_state" where
  "\<And>revalorizacion years year currentRent accumulatedCashFlow projection.
     for_loop revalorizacion years (year, currentRent, accumulatedCashFlow, projection) =
       (if of_int year \<le> years
        then for_loop revalorizacion years
               (loop_body revalorizacion (year, currentRent, accumulatedCashFlow, projection))
        else (year, currentRent, accumulatedCashFlow, projection))"
  by pat_completeness auto
termination
  by (relation "measure (\<lambda>(r, years, year, s). nat (\<lfloor>years\<rfloor> + 1 - year))")
     (auto simp: loop_body_def Let_def le_floor_iff)

declare for_loop.simps [simp del]

text \<open>The state in which the loop starts, for the object \<^verbatim>\<open>results\<close>.\<close>

definition initial_state :: "results \<Rightarrow> loop_state" where
  "initial_state results = (1, cashFlowMensual results * 12, 0, [])"

text \<open>
  \<^verbatim>\<open>generateCashFlowProjection = (results, revalorizacion = 0, years = 10) => ...\<close>:
  an argument that is absent takes its default.
\<close>

definition generateCashFlowProjection :: "results \<Rightarrow> real option \<Rightarrow> real option \<Rightarrow> point list" where
  "generateCashFlowProjection results revalorizacion years =
     (let revalorizacion = default_to 0 revalorizacion;
          years = default_to 10 years
      in snd (snd (snd (for_loop revalorizacion years (initial_state results)))))"
  for revalorizacion :: "real option"

text \<open>
  The value of \<^verbatim>\<open>currentRent\<close> when the loop over \<open>k\<close> years ends: the cash flow of
  year \<open>k\<close> before \<^verbatim>\<open>Math.round\<close>.
\<close>

definition currentRent_after :: "results \<Rightarrow> real \<Rightarrow> nat \<Rightarrow> real" where
  "currentRent_after results revalorizacion k =
     fst (snd (for_loop revalorizacion (real k) (initial_state results)))"
  for revalorizacion :: real

text \<open>
  The point of year \<open>i\<close> in closed form, for the yearly base \<open>b\<close> and the rate \<open>r\<close>;
  \<open>generateCashFlowProjection_points\<close> below proves that the loop pushes these points.
\<close>

definition point_at :: "real \<Rightarrow> real \<Rightarrow> nat \<Rightarrow> point" where
  "point_at b r i =
     \<lparr>year = year_label (int i),
      cashFlow = Math_round (b * (1 + r) ^ (i - 1)),
      accumulated = Math_round (\<Sum>j<i. b * (1 + r) ^ j)\<rparr>"

subsection \<open>getItpRate\<close>

text \<open>
  \<^verbatim>\<open>itpTable\<close> is an object literal of nineteen properties, here in the source's order;
  a name is the byte string of the source file (UTF-8).
\<close>

definition itpTable :: "(string \<times> real) list" where
  "itpTable =
     [(''Andaluc'' @ [CHR 0xC3, CHR 0xAD] @ ''a'', 8 / 100),
      (''Arag'' @ [CHR 0xC3, CHR 0xB3] @ ''n'', 8 / 100),
      (''Asturias'', 8 / 100),
      (''Baleares'', 8 / 100),
      (''Canarias'', 65 / 1000),
      (''Cantabria'', 10 / 100),
      (''Castilla - La Mancha'', 9 / 100),
      (''Castilla Le'' @ [CHR 0xC3, CHR 0xB3] @ ''n'', 8 / 100),
      (''Catalu'' @ [CHR 0xC3, CHR 0xB1] @ ''a'', 10 / 100),
      (''Ceuta'', 6 / 100),
      (''Comunidad de Madrid'', 6 / 100),
      (''Comunidad Valenciana'', 10 / 100),
      (''Extremadura'', 8 / 100),
      (''Galicia'', 9 / 100),
      (''La Rioja'', 7 / 100),
      (''Melilla'', 6 / 100),
      (''Murcia'', 8 / 100),
      (''Navarra'', 6 / 100),
      (''Pa'' @ [CHR 0xC3, CHR 0xAD] @ ''s Vasco'', 4 / 100)]"

text \<open>\<^verbatim>\<open>communities = Object.keys(itpTable)\<close>: the table's own keys.\<close>

definition communities :: "string list" where
  "communities = map fst itpTable"

text \<open>
  A value that \<^verbatim>\<open>itpTable[community]\<close> can yield: a number stored in the table, or the
  member of that name which every object literal inherits from \<^verbatim>\<open>Object.prototype\<close>
  (a function of the runtime; for \<^verbatim>\<open>__proto__\<close> the prototype object itself).
\<close>

datatype js_value = Number real | Inherited string

text \<open>The property names of \<^verbatim>\<open>Object.prototype\<close> (ECMAScript, with Annex B).\<close>

definition Object_prototype :: "string list" where
  "Object_prototype =
     [''constructor'', ''hasOwnProperty'', ''isPrototypeOf'', ''propertyIsEnumerable'',
      ''toLocaleString'', ''toString'', ''valueOf'', ''__proto__'',
      ''__defineGetter__'', ''__defineSetter__'', ''__lookupGetter__'', ''__lookupSetter__'']"

text \<open>
  The property read \<^verbatim>\<open>obj[key]\<close> on an object literal: an own property first, then the
  prototype; \<open>None\<close> is \<^verbatim>\<open>undefined\<close>.
\<close>

definition get_property :: "(string \<times> real) list \<Rightarrow> string \<Rightarrow> js_value option" where
  "get_property obj key =
     (case map_of obj key of
        Some v \<Rightarrow> Some (Number v)
      | None \<Rightarrow> if key \<in> set Object_prototype then Some (Inherited key) else None)"

text \<open>
  Truthiness, as \<^verbatim>\<open>||\<close> tests it: the number 0 is falsy (and so is \<^verbatim>\<open>undefined\<close>),
  functions and objects are truthy.
\<close>

fun truthy :: "js_value \<Rightarrow> bool" where
  "truthy (Number v) = (v \<noteq> 0)"
| "truthy (Inherited n) = True"

text \<open>
  \<^verbatim>\<open>
  export const getItpRate = (community) => {
      return itpTable[community] || 0.08; // Default to 8%
  };
  \<close>
\<close>

definition getItpRate :: "string \<Rightarrow> js_value" where
  "getItpRate community =
     (case get_property itpTable community of
        None \<Rightarrow> Number (8 / 100)
      | Some v \<Rightarrow> if truthy v then v else Number (8 / 100))"

section \<open>Evaluation of the Math object\<close>

lemma Math_round_numeral_div [simp]:
  "Math_round (numeral a / numeral b) = (2 * numeral a + numeral b) div (2 * numeral b)"
proof -
  have "(numeral a / numeral b + 1 / 2 :: real) = of_int (2 * numeral a + numeral b) / of_int (2 * numeral b)"
    by (simp add: field_simps)
  then show ?thesis
    unfolding Math_round_def by (simp only: floor_divide_of_int_eq)
qed

lemma Math_round_numeral [simp]: "Math_round (numeral a) = numeral a"
  unfolding Math_round_def by (simp add: floor_eq_iff)

section \<open>Properties of calculatePMT\<close>

lemma Math_pow_gt_one:
  assumes "0 < r" and "0 < n"
  shows "1 < Math_pow (1 + r) n"
proof -
  have "(1 + r) powr 0 < (1 + r) powr n"
    using assms by (intro powr_less_mono) simp_all
  then show ?thesis
    using assms by (simp add: Math_pow_def)
qed

text \<open>
  Claim C2.  When \<open>principal \<le> 0\<close> or \<open>years \<le> 0\<close>, \<^verbatim>\<open>calculatePMT\<close> returns 0;
  otherwise, when \<open>annualRate \<le> 0\<close>, it returns \<open>principal / (years * 12)\<close>.
\<close>

theorem calculatePMT_guards:
  fixes principal :: real
  shows "(principal \<le> 0 \<or> years \<le> 0 \<longrightarrow> calculatePMT annualRate years principal = 0) \<and>
   (\<not> (principal \<le> 0 \<or> years \<le> 0) \<and> annualRate \<le> 0 \<longrightarrow>
      calculatePMT annualRate years principal = principal / (years * 12))"
  by (simp add: calculatePMT_def)

theorem calculatePMT_guards_witness:
  "calculatePMT (2 / 100) 30 0 = 0 \<and> calculatePMT (2 / 100) 0 52500 = 0 \<and>
   calculatePMT (2 / 100) (- 1) (- 5) = 0 \<and>
   calculatePMT 0 30 52500 = 52500 / (30 * 12) \<and>
   calculatePMT (- 1 / 100) 10 1200 = 10"
  using calculatePMT_guards [of 0 30 "2 / 100"]
        calculatePMT_guards [of 52500 0 "2 / 100"]
        calculatePMT_guards [of "- 5" "- 1" "2 / 100"]
        calculatePMT_guards [of 52500 30 0]
        calculatePMT_guards [of 1200 10 "- 1 / 100"]
  by simp

text \<open>
  Claim C3.  For \<open>principal > 0\<close>, \<open>years > 0\<close> and \<open>annualRate > 0\<close>, \<^verbatim>\<open>calculatePMT\<close>
  returns \<open>principal * r * (1 + r)^n / ((1 + r)^n - 1)\<close> with \<open>r = annualRate / 12\<close> and
  \<open>n = years * 12\<close>; the divisor is positive, so the quotient is a true division.
\<close>

theorem calculatePMT_formula:
  fixes principal :: real
  assumes "0 < principal" and "0 < years" and "0 < annualRate"
  shows "calculatePMT annualRate years principal =
           principal * (annualRate / 12) * (1 + annualRate / 12) powr (years * 12)
             / ((1 + annualRate / 12) powr (years * 12) - 1)
         \<and> 0 < (1 + annualRate / 12) powr (years * 12) - 1"
proof -
  have "1 < Math_pow (1 + annualRate / 12) (years * 12)"
    using assms by (intro Math_pow_gt_one) simp_all
  then have "0 < (1 + annualRate / 12) powr (years * 12) - 1"
    by (simp add: Math_pow_def)
  moreover have "calculatePMT annualRate years principal =
           principal * (annualRate / 12) * (1 + annualRate / 12) powr (years * 12)
             / ((1 + annualRate / 12) powr (years * 12) - 1)"
    using assms by (simp add: calculatePMT_def Math_pow_def Let_def)
  ultimately show ?thesis by simp
qed

theorem calculatePMT_formula_witness:
  "calculatePMT (12 / 100) 1 1000 =
     1000 * (1 / 100) * (101 / 100) ^ 12 / ((101 / 100) ^ 12 - 1)"
proof -
  have "(0::real) < 1000" and "(0::real) < 1" and "(0::real) < 12 / 100"
    by simp_all
  from calculatePMT_formula [OF this] show ?thesis
    by simp
qed

section \<open>Properties of calculateInvestment\<close>

text \<open>With a rent and nothing else, the monthly cash flow is the rent.\<close>

lemma cashFlowMensual_rent_only:
  "cashFlowMensual (calculateInvestment (no_inputs\<lparr>cuotaAlquiler := Some b\<rparr>)) = b"
  by (simp add: calculateInvestment_def Let_def no_inputs_def default_to_def calculatePMT_def)

text \<open>
  A division by zero shows in \<open>js_divide\<close>: the quotient is then not a finite number.
\<close>

lemma js_divide_by_zero: "js_divide a 0 \<noteq> Finite v"
  by (simp add: js_divide_def)

lemma js_divide_nonzero: "b \<noteq> 0 \<Longrightarrow> js_divide a b = Finite (a / b)"
  by (simp add: js_divide_def)

text \<open>
  Claim C4.  Whenever \<open>totalCompra\<close> is 0, the gross yield \<open>rentabilidadBruta\<close> and the
  net yield \<open>rentabilidadNeta\<close> are the finite number 0, not NaN and not an infinity:
  the guard \<open>totalCompra > 0\<close> keeps the division by zero from being evaluated.
\<close>

theorem calculateInvestment_yields_guarded:
  assumes "totalCompra (calculateInvestment inputs) = 0"
  shows "rentabilidadBruta (calculateInvestment inputs) = Finite 0 \<and>
         rentabilidadNeta (calculateInvestment inputs) = Finite 0"
  using assms by (simp add: calculateInvestment_def Let_def)

text \<open>
  With a rent of 1100, annual taxes of 800 and no purchase cost, \<open>totalCompra\<close> is 0 and
  both yields are \<open>Finite 0\<close>, where the bare quotients would be \<open>+\<infinity>\<close>.
\<close>

theorem calculateInvestment_yields_guarded_witness:
  "totalCompra (calculateInvestment (no_inputs\<lparr>cuotaAlquiler := Some 1100, impuestosAnuales := Some 800\<rparr>)) = 0 \<and>
   ingresoAnual (calculateInvestment (no_inputs\<lparr>cuotaAlquiler := Some 1100, impuestosAnuales := Some 800\<rparr>)) = 13200 \<and>
   rentabilidadBruta (calculateInvestment (no_inputs\<lparr>cuotaAlquiler := Some 1100, impuestosAnuales := Some 800\<rparr>)) = Finite 0 \<and>
   rentabilidadNeta (calculateInvestment (no_inputs\<lparr>cuotaAlquiler := Some 1100, impuestosAnuales := Some 800\<rparr>)) = Finite 0 \<and>
   js_divide 13200 0 = PlusInfinity \<and> js_divide (13200 - 800 - 0) 0 = PlusInfinity"
proof -
  let ?i = "no_inputs\<lparr>cuotaAlquiler := Some 1100, impuestosAnuales := Some 800\<rparr>"
  have h: "totalCompra (calculateInvestment ?i) = 0"
    by (simp add: calculateInvestment_def Let_def no_inputs_def default_to_def)
  have i: "ingresoAnual (calculateInvestment ?i) = 13200"
    by (simp add: calculateInvestment_def Let_def no_inputs_def default_to_def)
  have d: "js_divide 13200 0 = PlusInfinity \<and> js_divide (13200 - 800 - 0) 0 = PlusInfinity"
    by (simp add: js_divide_def)
  from h i d calculateInvestment_yields_guarded [OF h] show ?thesis
    by simp
qed

text \<open>On the end-to-end scenario the gross yield is the quotient \<open>13200 / 145000\<close>.\<close>

lemma rentabilidadBruta_scenario:
  "rentabilidadBruta (calculateInvestment scenario) = Finite (13200 / 145000)"
  by (simp add: calculateInvestment_def Let_def scenario_def no_inputs_def default_to_def
      js_divide_def)

text \<open>
  Claim C5.  Whenever \<open>capitalAportar \<le> 0\<close>, the three returns on equity \<open>cashOnCash\<close>,
  \<open>roce\<close> and \<open>rentabilidadTotal\<close> are 0; \<open>rentabilidadTotal\<close> is then 0 whatever
  \<open>revalorizacion\<close> is, the appreciation being added inside the guarded branch only.
\<close>

theorem calculateInvestment_equity_guarded:
  assumes "capitalAportar (calculateInvestment inputs) \<le> 0"
  shows "cashOnCash (calculateInvestment inputs) = 0 \<and>
         roce (calculateInvestment inputs) = 0 \<and>
         rentabilidadTotal (calculateInvestment inputs) = 0"
  using assms by (simp add: calculateInvestment_def Let_def)

theorem calculateInvestment_equity_guarded_witness:
  "revalorizacion (no_inputs\<lparr>precioCompra := Some 100000, porcentajeFinanciado := Some (12 / 10),
       cuotaAlquiler := Some 1100, revalorizacion := Some (2 / 100)\<rparr>) = Some (2 / 100) \<and>
   capitalAportar (calculateInvestment (no_inputs\<lparr>precioCompra := Some 100000, porcentajeFinanciado := Some (12 / 10),
       cuotaAlquiler := Some 1100, revalorizacion := Some (2 / 100)\<rparr>)) = - 10000 \<and>
   cashOnCash (calculateInvestment (no_inputs\<lparr>precioCompra := Some 100000, porcentajeFinanciado := Some (12 / 10),
       cuotaAlquiler := Some 1100, revalorizacion := Some (2 / 100)\<rparr>)) = 0 \<and>
   roce (calculateInvestment (no_inputs\<lparr>precioCompra := Some 100000, porcentajeFinanciado := Some (12 / 10),
       cuotaAlquiler := Some 1100, revalorizacion := Some (2 / 100)\<rparr>)) = 0 \<and>
   rentabilidadTotal (calculateInvestment (no_inputs\<lparr>precioCompra := Some 100000, porcentajeFinanciado := Some (12 / 10),
       cuotaAlquiler := Some 1100, revalorizacion := Some (2 / 100)\<rparr>)) = 0"
proof -
  let ?i = "no_inputs\<lparr>precioCompra := Some 100000, porcentajeFinanciado := Some (12 / 10),
       cuotaAlquiler := Some 1100, revalorizacion := Some (2 / 100)\<rparr>"
  have c: "capitalAportar (calculateInvestment ?i) = - 10000"
    by (simp add: calculateInvestment_def Let_def no_inputs_def default_to_def)
  then have h: "capitalAportar (calculateInvestment ?i) \<le> 0"
    by simp
  from c calculateInvestment_equity_guarded [OF h] show ?thesis
    by simp
qed

text \<open>
  Claim C6.  \<open>totalCompra\<close> is the purchase price plus the ITP tax (price times rate) plus
  the five other purchase costs, \<open>hipoteca\<close> is the price times the financed fraction,
  \<open>capitalAportar\<close> is \<open>totalCompra - hipoteca\<close> and \<open>ingresoAnual\<close> is twelve monthly
  rents; on the end-to-end scenario they are 145000, 52500, 92500 and 13200.
\<close>

theorem calculateInvestment_purchase_financing_income:
  "totalCompra (calculateInvestment inputs) =
     default_to 0 (precioCompra inputs)
       + default_to 0 (precioCompra inputs) * default_to (10 / 100) (itpRate inputs)
       + default_to 0 (gastos inputs) + default_to 0 (gastosHipoteca inputs)
       + default_to 0 (costeReforma inputs) + default_to 0 (comision inputs)
       + default_to 0 (mobiliario inputs)
   \<and> hipoteca (calculateInvestment inputs) =
       default_to 0 (precioCompra inputs) * default_to 0 (porcentajeFinanciado inputs)
   \<and> capitalAportar (calculateInvestment inputs) =
       totalCompra (calculateInvestment inputs) - hipoteca (calculateInvestment inputs)
   \<and> ingresoAnual (calculateInvestment inputs) = default_to 0 (cuotaAlquiler inputs) * 12
   \<and> totalCompra (calculateInvestment scenario) = 145000
   \<and> hipoteca (calculateInvestment scenario) = 52500
   \<and> capitalAportar (calculateInvestment scenario) = 92500
   \<and> ingresoAnual (calculateInvestment scenario) = 13200"
  by (simp add: calculateInvestment_def Let_def scenario_def no_inputs_def default_to_def)

subsection \<open>The averaged principal in exact arithmetic\<close>

text \<open>
  With a loan (\<open>hipoteca > 0\<close>) over a positive term, the averaged monthly principal,
  computed as the payment less the averaged interest, is \<open>hipoteca / (plazoHipoteca * 12)\<close>
  when no operation rounds, whatever the payment is.
\<close>

lemma average_principal_exact:
  assumes "hipoteca (calculateInvestment inputs) > 0"
    and "default_to 30 (plazoHipoteca inputs) > 0"
  shows "amortizacionPromedioMensual (calculateInvestment inputs) =
           hipoteca (calculateInvestment inputs) / (default_to 30 (plazoHipoteca inputs) * 12)
         \<and> amortizacionPromedioMensual (calculateInvestment inputs)
             * default_to 30 (plazoHipoteca inputs) * 12 = hipoteca (calculateInvestment inputs)"
  using assms by (simp add: calculateInvestment_def Let_def field_simps)

subsection \<open>Rounding to a double\<close>

lemma binade_eqI:
  assumes "2 powi e \<le> \<bar>x\<bar>" and "\<bar>x\<bar> < 2 powi (e + 1)"
  shows "binade x = e"
proof -
  have "(0::real) < 2 powi e"
    by simp
  with assms(1) have pos: "0 < \<bar>x\<bar>"
    by linarith
  have p: "(2::real) powr real_of_int k = 2 powi k" for k
    by (rule powr_real_of_int') simp_all
  have "of_int e \<le> log 2 \<bar>x\<bar>"
    using assms(1) pos by (simp add: le_log_iff p)
  moreover have "log 2 \<bar>x\<bar> < of_int (e + 1)"
    using assms(2) pos by (simp only: log_less_iff [OF _ pos] p)
  ultimately show ?thesis
    unfolding binade_def by (simp add: floor_eq_iff)
qed

lemma fl_eval:
  assumes "2 powi e \<le> \<bar>x\<bar>" and "\<bar>x\<bar> < 2 powi (e + 1)"
  shows "fl x = of_int (round_ties_even (x / 2 powi (e - 52))) * 2 powi (e - 52)"
proof -
  have "(0::real) < 2 powi e"
    by simp
  with assms(1) have "x \<noteq> 0"
    by linarith
  then show ?thesis
    by (simp add: fl_def Let_def binade_eqI [OF assms])
qed

lemma round_ties_even_near:
  assumes "\<bar>x - of_int m\<bar> < 1 / 2"
  shows "round_ties_even x = m"
proof (cases "of_int m \<le> x")
  case True
  with assms have "x < of_int m + 1 / 2"
    by (simp add: abs_less_iff)
  with True have f: "\<lfloor>x\<rfloor> = m"
    by (simp add: floor_eq_iff)
  from \<open>x < of_int m + 1 / 2\<close> have "x - of_int m < 1 / 2"
    by simp
  with f show ?thesis
    by (simp add: round_ties_even_def Let_def)
next
  case False
  with assms have "of_int m - 1 / 2 < x" and "x < of_int m"
    by (simp_all add: abs_less_iff)
  then have f: "\<lfloor>x\<rfloor> = m - 1"
    by (simp add: floor_eq_iff)
  from \<open>of_int m - 1 / 2 < x\<close> have "1 / 2 < x - of_int (m - 1)"
    by simp
  with f show ?thesis
    by (simp add: round_ties_even_def Let_def)
qed

lemma round_ties_even_tie:
  assumes "x = of_int m + 1 / 2"
  shows "round_ties_even x = (if even m then m else m + 1)"
proof -
  from assms have "\<lfloor>x\<rfloor> = m"
    by (simp add: floor_eq_iff)
  with assms show ?thesis
    by (simp add: round_ties_even_def Let_def)
qed

lemma fl_near:
  assumes "2 powi e \<le> \<bar>x\<bar>" and "\<bar>x\<bar> < 2 powi (e + 1)"
    and "\<bar>x / 2 powi (e - 52) - of_int m\<bar> < 1 / 2"
  shows "fl x = of_int m * 2 powi (e - 52)"
  by (simp only: fl_eval [OF assms(1,2)] round_ties_even_near [OF assms(3)])

lemma fl_tie:
  assumes "2 powi e \<le> \<bar>x\<bar>" and "\<bar>x\<bar> < 2 powi (e + 1)"
    and "x / 2 powi (e - 52) = of_int m + 1 / 2"
  shows "fl x = of_int (if even m then m else m + 1) * 2 powi (e - 52)"
  by (simp only: fl_eval [OF assms(1,2)] round_ties_even_tie [OF assms(3)])

text \<open>
  \<open>fl\<close> rounds to nearest: the result is within half a unit in the last place, hence
  within the relative error \<open>unit_roundoff\<close>.
\<close>

lemma round_ties_even_error: "\<bar>of_int (round_ties_even y) - y\<bar> \<le> 1 / 2"
  unfolding round_ties_even_def Let_def by (auto simp: abs_le_iff)

lemma binade_le:
  assumes "x \<noteq> 0"
  shows "2 powi (binade x) \<le> \<bar>x\<bar>"
proof -
  have pos: "0 < \<bar>x\<bar>"
    using assms by simp
  have "of_int (binade x) \<le> log 2 \<bar>x\<bar>"
    unfolding binade_def by simp
  then have "2 powr of_int (binade x) \<le> \<bar>x\<bar>"
    using pos by (simp add: le_log_iff)
  moreover have "(2::real) powr real_of_int (binade x) = 2 powi (binade x)"
    by (rule powr_real_of_int') simp_all
  ultimately show ?thesis
    by simp
qed

lemma fl_error:
  "\<bar>fl x - x\<bar> \<le> unit_roundoff * \<bar>x\<bar>"
proof (cases "x = 0")
  case True
  then show ?thesis by (simp add: fl_def)
next
  case False
  define ulp :: real where "ulp = 2 powi (binade x - 52)"
  have ulp_pos: "0 < ulp"
    by (simp add: ulp_def)
  have fl: "fl x = of_int (round_ties_even (x / ulp)) * ulp"
    using False by (simp add: fl_def Let_def ulp_def)
  have "fl x - x = (of_int (round_ties_even (x / ulp)) - x / ulp) * ulp"
    using ulp_pos by (simp add: fl field_simps)
  then have "\<bar>fl x - x\<bar> = \<bar>of_int (round_ties_even (x / ulp)) - x / ulp\<bar> * ulp"
    using ulp_pos by (simp add: abs_mult)
  also have "\<dots> \<le> 1 / 2 * ulp"
    using round_ties_even_error [of "x / ulp"] ulp_pos by (intro mult_right_mono) simp_all
  also have "1 / 2 * ulp = unit_roundoff * 2 powi (binade x)"
    by (simp add: ulp_def unit_roundoff_def power_int_diff)
  also have "\<dots> \<le> unit_roundoff * \<bar>x\<bar>"
    using binade_le [OF False] by (intro mult_left_mono) (simp_all add: unit_roundoff_def)
  finally show ?thesis .
qed

lemma fl_relative:
  obtains d where "\<bar>d\<bar> \<le> unit_roundoff" and "fl x = x * (1 + d)"
proof (cases "x = 0")
  case True
  show ?thesis
    by (rule that [of 0]) (simp_all add: True fl_def unit_roundoff_def)
next
  case False
  show ?thesis
  proof (rule that [of "(fl x - x) / x"])
    have "\<bar>(fl x - x) / x\<bar> = \<bar>fl x - x\<bar> / \<bar>x\<bar>"
      by (simp add: abs_divide)
    also have "\<dots> \<le> unit_roundoff"
      using fl_error [of x] False by (simp add: field_simps)
    finally show "\<bar>(fl x - x) / x\<bar> \<le> unit_roundoff" .
    show "fl x = x * (1 + (fl x - x) / x)"
      using False by (simp add: field_simps)
  qed
qed

subsection \<open>The averaged principal in doubles\<close>

lemma unit_roundoff_bounds: "0 < unit_roundoff" "unit_roundoff \<le> 1 / 8"
  by (simp_all add: unit_roundoff_def)

lemma abs_mult_le:
  fixes a b :: real
  assumes "\<bar>a\<bar> \<le> x" and "\<bar>b\<bar> \<le> y"
  shows "\<bar>a * b\<bar> \<le> x * y"
proof -
  have "\<bar>a * b\<bar> = \<bar>a\<bar> * \<bar>b\<bar>"
    by (simp add: abs_mult)
  also have "\<dots> \<le> x * y"
    using assms by (intro mult_mono) simp_all
  finally show ?thesis .
qed

lemma cancel_scale:
  fixes q :: real
  assumes "q \<noteq> 0" and "e4 \<noteq> 0"
  shows "q * X * e3 / (q * e4) * e5 = X * (e3 * e5 / e4)"
  using assms by (simp add: field_simps)

text \<open>
  The six roundings of the split move the averaged principal away from
  \<open>hipoteca / (plazoHipoteca * 12)\<close> by at most 32 unit roundoffs of the payment plus
  the quotient, for every loan, term and payment.
\<close>

lemma amortizacionPromedioMensual_double_bound:
  fixes h p c :: real
  assumes "h > 0" and "p > 0"
  shows "\<bar>amortizacionPromedioMensual_double h p c - h / (p * 12)\<bar>
           \<le> 32 * unit_roundoff * (\<bar>c\<bar> + h / (p * 12))"
proof -
  define u where "u = unit_roundoff"
  have u: "0 < u" "u \<le> 1 / 8"
    using unit_roundoff_bounds by (simp_all add: u_def)
  then have uu: "u * u \<le> u"
    by (simp add: mult_le_cancel_left2)
  define A where "A = h / (p * 12)"
  have A: "0 < A" and hA: "h = A * (p * 12)"
    using assms by (simp_all add: A_def)
  define S where "S = \<bar>c\<bar> + A"
  have S: "0 \<le> S" "\<bar>c\<bar> \<le> S" "A \<le> S" "\<bar>c - A\<bar> \<le> S"
    using A by (simp_all add: S_def)
  define t1 where "t1 = fl (c * 12)"
  define t2 where "t2 = fl (t1 * p)"
  define t3 where "t3 = fl (t2 - h)"
  define n where "n = fl (p * 12)"
  define i where "i = fl (t3 / n)"
  obtain d1 where d1: "\<bar>d1\<bar> \<le> u" "t1 = c * 12 * (1 + d1)"
    using fl_relative [of "c * 12"] unfolding u_def t1_def by blast
  obtain d2 where d2: "\<bar>d2\<bar> \<le> u" "t2 = t1 * p * (1 + d2)"
    using fl_relative [of "t1 * p"] unfolding u_def t2_def by blast
  obtain d3 where d3: "\<bar>d3\<bar> \<le> u" "t3 = (t2 - h) * (1 + d3)"
    using fl_relative [of "t2 - h"] unfolding u_def t3_def by blast
  obtain d4 where d4: "\<bar>d4\<bar> \<le> u" "n = p * 12 * (1 + d4)"
    using fl_relative [of "p * 12"] unfolding u_def n_def by blast
  obtain d5 where d5: "\<bar>d5\<bar> \<le> u" "i = t3 / n * (1 + d5)"
    using fl_relative [of "t3 / n"] unfolding u_def i_def by blast
  obtain d6 where d6: "\<bar>d6\<bar> \<le> u" "fl (c - i) = (c - i) * (1 + d6)"
    using fl_relative [of "c - i"] unfolding u_def by blast
  have "amortizacionPromedioMensual_double h p c = fl (c - i)"
    using assms
    by (simp add: amortizacionPromedioMensual_double_def interesesPromedioMensual_double_def
        i_def t3_def t2_def t1_def n_def)
  then have a: "amortizacionPromedioMensual_double h p c = (c - i) * (1 + d6)"
    by (simp only: d6(2))
  define P where "P = (1 + d1) * (1 + d2)"
  define E where "E = (1 + d3) * (1 + d5) / (1 + d4)"
  have d4pos: "1 / 2 \<le> 1 + d4"
    using d4(1) u by (simp add: abs_le_iff)
  then have d4nz: "1 + d4 \<noteq> 0"
    by linarith
  have "t2 = p * 12 * (c * P)"
    by (simp add: d2(2) d1(2) P_def)
  then have "t2 - h = p * 12 * (c * P - A)"
    by (simp add: hA algebra_simps)
  then have "i = p * 12 * (c * P - A) * (1 + d3) / (p * 12 * (1 + d4)) * (1 + d5)"
    by (simp add: d5(2) d3(2) d4(2))
  also have "\<dots> = (c * P - A) * E"
    unfolding E_def using assms(2) d4nz by (intro cancel_scale) simp_all
  finally have i: "i = (c * P - A) * E" .
  have "\<bar>d1 * d2\<bar> \<le> u * u"
    using d1(1) d2(1) by (rule abs_mult_le)
  moreover have "P - 1 = d1 + d2 + d1 * d2"
    by (simp add: P_def algebra_simps)
  ultimately have P: "\<bar>P - 1\<bar> \<le> 3 * u"
    using d1(1) d2(1) uu by linarith
  have "\<bar>d3 * d5\<bar> \<le> u * u"
    using d3(1) d5(1) by (rule abs_mult_le)
  then have num: "\<bar>d3 + d5 + d3 * d5 - d4\<bar> \<le> 4 * u"
    using d3(1) d5(1) d4(1) uu by linarith
  have "E - 1 = (d3 + d5 + d3 * d5 - d4) / (1 + d4)"
    using d4pos by (simp add: E_def field_simps)
  then have "\<bar>E - 1\<bar> = \<bar>d3 + d5 + d3 * d5 - d4\<bar> / (1 + d4)"
    using d4pos by (simp add: abs_divide)
  also have "\<dots> \<le> 4 * u / (1 / 2)"
    using num d4pos u by (intro frac_le) simp_all
  finally have E1: "\<bar>E - 1\<bar> \<le> 8 * u"
    by simp
  then have E: "\<bar>E\<bar> \<le> 2"
    using u by linarith
  have split: "c - i - A = (c - A) * (1 - E) - c * ((P - 1) * E)"
    by (simp add: i algebra_simps)
  define B where "B = u * S"
  have B: "0 \<le> B"
    using u S(1) by (simp add: B_def)
  have "\<bar>(c - A) * (1 - E)\<bar> \<le> S * (8 * u)"
    using S(4) E1 by (intro abs_mult_le) simp_all
  then have x: "\<bar>(c - A) * (1 - E)\<bar> \<le> 8 * B"
    by (simp add: B_def mult.commute)
  have "\<bar>(P - 1) * E\<bar> \<le> 3 * u * 2"
    using P E by (rule abs_mult_le)
  then have "\<bar>c * ((P - 1) * E)\<bar> \<le> S * (3 * u * 2)"
    using S(2) by (rule abs_mult_le [rotated])
  then have y: "\<bar>c * ((P - 1) * E)\<bar> \<le> 6 * B"
    by (simp add: B_def mult.commute)
  from x y have r: "\<bar>c - i - A\<bar> \<le> 14 * B"
    unfolding split by linarith
  have "\<bar>1 + d6\<bar> \<le> 2"
    using d6(1) u by linarith
  with r have "\<bar>(c - i - A) * (1 + d6)\<bar> \<le> 14 * B * 2"
    by (rule abs_mult_le)
  then have v: "\<bar>(c - i - A) * (1 + d6)\<bar> \<le> 28 * B"
    by simp
  have "\<bar>A * d6\<bar> \<le> S * u"
    using A S(3) d6(1) by (intro abs_mult_le) simp_all
  then have w: "\<bar>A * d6\<bar> \<le> B"
    by (simp add: B_def mult.commute)
  have "amortizacionPromedioMensual_double h p c - A = (c - i - A) * (1 + d6) + A * d6"
    by (simp add: a algebra_simps)
  with v w B have "\<bar>amortizacionPromedioMensual_double h p c - A\<bar> \<le> 32 * B"
    by linarith
  then show ?thesis
    by (simp add: A_def S_def u_def B_def mult.assoc)
qed

text \<open>
  Claim C10, up to rounding.  With a loan (\<open>hipoteca > 0\<close>) over a positive term, the
  averaged monthly principal \<open>amortizacionPromedioMensual\<close> is
  \<open>hipoteca / (plazoHipoteca * 12)\<close>, and over the \<open>plazoHipoteca * 12\<close> months of the term
  it adds up to the loan amount, whatever the interest rate: exactly so when the
  arithmetic is exact, and in the doubles of the source within
  \<open>32 * unit_roundoff\<close> times the payment plus the quotient, for any payment
  \<open>cuotaHipotecaMensual\<close> (results in the normal range of the doubles).
\<close>

theorem calculateInvestment_average_principal:
  fixes h p c :: real
  assumes "hipoteca (calculateInvestment inputs) > 0"
    and "default_to 30 (plazoHipoteca inputs) > 0"
    and "h > 0" and "p > 0"
  shows "amortizacionPromedioMensual (calculateInvestment inputs) =
           hipoteca (calculateInvestment inputs) / (default_to 30 (plazoHipoteca inputs) * 12)
         \<and> amortizacionPromedioMensual (calculateInvestment inputs)
             * default_to 30 (plazoHipoteca inputs) * 12 = hipoteca (calculateInvestment inputs)
         \<and> \<bar>amortizacionPromedioMensual_double h p c - h / (p * 12)\<bar>
             \<le> 32 * unit_roundoff * (\<bar>c\<bar> + h / (p * 12))"
  using average_principal_exact [OF assms(1,2)]
    amortizacionPromedioMensual_double_bound [OF assms(3,4), of c]
  by blast

text \<open>
  The end-to-end scenario for the exact part; the loan of 50000 over 30 years with the
  payment 138.88888888888889 for the doubles.
\<close>

theorem calculateInvestment_average_principal_witness:
  "amortizacionPromedioMensual (calculateInvestment scenario) = 52500 / (30 * 12) \<and>
   amortizacionPromedioMensual (calculateInvestment scenario) * 30 * 12 = 52500 \<and>
   \<bar>amortizacionPromedioMensual_double 50000 30 (4886718345671111 / 35184372088832)
      - 50000 / (30 * 12)\<bar>
     \<le> 32 * unit_roundoff * (\<bar>4886718345671111 / 35184372088832\<bar> + 50000 / (30 * 12))"
proof -
  have h: "hipoteca (calculateInvestment scenario) = 52500"
    by (simp add: calculateInvestment_def Let_def scenario_def no_inputs_def default_to_def)
  have p: "default_to 30 (plazoHipoteca scenario) = 30"
    by (simp add: scenario_def no_inputs_def default_to_def)
  have "hipoteca (calculateInvestment scenario) > 0" and "default_to 30 (plazoHipoteca scenario) > 0"
    and "(50000::real) > 0" and "(30::real) > 0"
    by (simp_all add: h p)
  from calculateInvestment_average_principal
    [OF this, of "4886718345671111 / 35184372088832"]
  show ?thesis
    by (simp only: h p) simp
qed

text \<open>The double written \<^verbatim>\<open>0.1\<close>, as a check of \<open>fl\<close>.\<close>

lemma fl_one_tenth: "fl (1 / 10) = 3602879701896397 / 36028797018963968"
proof -
  have "fl (1 / 10) = of_int 7205759403792794 * 2 powi (- 4 - 52)"
    by (rule fl_near) (simp_all add: power_int_def power_one_over)
  then show ?thesis
    by (simp add: power_int_def power_one_over)
qed

lemma fl_360: "fl 360 = 360"
proof -
  have "fl 360 = of_int 6333186975989760 * 2 powi (8 - 52)"
    by (rule fl_near) (simp_all add: power_int_def power_one_over)
  then show ?thesis
    by (simp add: power_int_def power_one_over)
qed

subsection \<open>The averaged split in doubles, for a loan of 50000 over 30 years at 0%\<close>

text \<open>
  At the rate 0 the payment is \<^verbatim>\<open>principal / (years * 12)\<close> (second branch of
  \<^verbatim>\<open>calculatePMT\<close>), in doubles \<open>fl (50000 / fl (30 * 12))\<close>, which is
  138.88888888888889.  Each lemma is one operation of the source.
\<close>

lemma fl_30_times_12: "fl (30 * 12) = 360"
proof -
  have "(30::real) * 12 = 360"
    by simp
  then show ?thesis
    by (simp only: fl_360)
qed

lemma step_cuota: "fl (50000 / 360) = 4886718345671111 / 35184372088832"
proof -
  have "fl (50000 / 360) = of_int 4886718345671111 * 2 powi (7 - 52)"
    by (rule fl_near) (simp_all add: power_int_def power_one_over)
  then show ?thesis
    by (simp add: power_int_def power_one_over)
qed

lemma step_times_12: "fl (4886718345671111 / 35184372088832 * 12) = 3665038759253333 / 2199023255552"
proof -
  have "fl (4886718345671111 / 35184372088832 * 12) =
      of_int (if even (7330077518506666::int) then 7330077518506666 else 7330077518506666 + 1)
        * 2 powi (10 - 52)"
    by (rule fl_tie) (simp_all add: power_int_def power_one_over)
  then show ?thesis
    by (simp add: power_int_def power_one_over)
qed

lemma step_times_plazo: "fl (3665038759253333 / 2199023255552 * 30) = 6871947673599999 / 137438953472"
proof -
  have "fl (3665038759253333 / 2199023255552 * 30) = of_int 6871947673599999 * 2 powi (15 - 52)"
    by (rule fl_near) (simp_all add: power_int_def power_one_over)
  then show ?thesis
    by (simp add: power_int_def power_one_over)
qed

lemma step_minus_hipoteca: "fl (6871947673599999 / 137438953472 - 50000) = - 1 / 137438953472"
proof -
  have "fl (6871947673599999 / 137438953472 - 50000) = of_int (- 4503599627370496) * 2 powi (- 37 - 52)"
    by (rule fl_near) (simp_all add: power_int_def power_one_over)
  then show ?thesis
    by (simp add: power_int_def power_one_over)
qed

lemma step_intereses:
  "fl (- 1 / 137438953472 / 360) = - 6405119470038039 / 316912650057057350374175801344"
proof -
  have "fl (- 1 / 137438953472 / 360) = of_int (- 6405119470038039) * 2 powi (- 46 - 52)"
    by (rule fl_near) (simp_all add: power_int_def power_one_over)
  then show ?thesis
    by (simp add: power_int_def power_one_over)
qed

lemma step_amortizacion:
  "fl (4886718345671111 / 35184372088832 - - 6405119470038039 / 316912650057057350374175801344) =
     610839793208889 / 4398046511104"
proof -
  have "fl (4886718345671111 / 35184372088832 - - 6405119470038039 / 316912650057057350374175801344) =
      of_int 4886718345671112 * 2 powi (7 - 52)"
    by (rule fl_near) (simp_all add: power_int_def power_one_over)
  then show ?thesis
    by (simp add: power_int_def power_one_over)
qed

lemma step_amortizacion_times_plazo:
  "fl (610839793208889 / 4398046511104 * 30) = 1145324612266667 / 274877906944"
proof -
  have "fl (610839793208889 / 4398046511104 * 30) =
      of_int (if even (4581298449066667::int) then 4581298449066667 else 4581298449066667 + 1)
        * 2 powi (12 - 52)"
    by (rule fl_tie) (simp_all add: power_int_def power_one_over)
  then show ?thesis
    by (simp add: power_int_def power_one_over)
qed

lemma step_amortizacion_times_12:
  "fl (1145324612266667 / 274877906944 * 12) = 3435973836800001 / 68719476736"
proof -
  have "fl (1145324612266667 / 274877906944 * 12) = of_int 6871947673600002 * 2 powi (15 - 52)"
    by (rule fl_near) (simp_all add: power_int_def power_one_over)
  then show ?thesis
    by (simp add: power_int_def power_one_over)
qed

lemma payment_double: "fl (50000 / fl (30 * 12)) = 4886718345671111 / 35184372088832"
  by (simp only: fl_30_times_12 step_cuota)

lemma interesesPromedioMensual_double_example:
  "interesesPromedioMensual_double 50000 30 (4886718345671111 / 35184372088832) =
     - 6405119470038039 / 316912650057057350374175801344"
proof -
  have guard: "(50000::real) > 0 \<and> (30::real) > 0"
    by simp
  show ?thesis
    by (simp only: interesesPromedioMensual_double_def guard simp_thms if_True step_times_12
        step_times_plazo step_minus_hipoteca fl_30_times_12 step_intereses)
qed

lemma amortizacionPromedioMensual_double_example:
  "amortizacionPromedioMensual_double 50000 30 (4886718345671111 / 35184372088832) =
     610839793208889 / 4398046511104"
  by (simp only: amortizacionPromedioMensual_double_def interesesPromedioMensual_double_example
      step_amortizacion)

text \<open>
  Claim C10, as it is worded, for the doubles the source computes.  For a loan of 50000
  over 30 years at 0% (a price of 100000, half of it financed) the payment is
  138.88888888888889, the averaged interest comes out as -2.021099337273174e-14 and the
  averaged principal as 138.8888888888889: one unit in the last place above
  \<^verbatim>\<open>hipoteca / (plazoHipoteca * 12)\<close>, and \<^verbatim>\<open>amortizacionPromedioMensual * 30 * 12\<close>
  is 50000.000000000015, not 50000.
\<close>

theorem average_principal_double_counterexample:
  "fl (50000 / fl (30 * 12)) = 4886718345671111 / 35184372088832 \<and>
   interesesPromedioMensual_double 50000 30 (fl (50000 / fl (30 * 12))) =
     - 6405119470038039 / 316912650057057350374175801344 \<and>
   amortizacionPromedioMensual_double 50000 30 (fl (50000 / fl (30 * 12))) =
     610839793208889 / 4398046511104 \<and>
   amortizacionPromedioMensual_double 50000 30 (fl (50000 / fl (30 * 12))) \<noteq>
     fl (50000 / fl (30 * 12)) \<and>
   amortizacionPromedioMensual_double 50000 30 (fl (50000 / fl (30 * 12))) \<noteq> 50000 / (30 * 12) \<and>
   fl (fl (amortizacionPromedioMensual_double 50000 30 (fl (50000 / fl (30 * 12))) * 30) * 12) =
     3435973836800001 / 68719476736 \<and>
   fl (fl (amortizacionPromedioMensual_double 50000 30 (fl (50000 / fl (30 * 12))) * 30) * 12) \<noteq>
     50000"
proof -
  have b: "fl (fl (610839793208889 / 4398046511104 * 30) * 12) = 3435973836800001 / 68719476736"
    by (simp only: step_amortizacion_times_plazo step_amortizacion_times_12)
  have c: "(610839793208889 / 4398046511104 :: real) \<noteq> 4886718345671111 / 35184372088832"
    by simp
  have d: "(610839793208889 / 4398046511104 :: real) \<noteq> 50000 / (30 * 12)"
    by simp
  have e: "(3435973836800001 / 68719476736 :: real) \<noteq> 50000"
    by simp
  show ?thesis
    unfolding payment_double interesesPromedioMensual_double_example
      amortizacionPromedioMensual_double_example b
    using c d e by (intro conjI refl)
qed

section \<open>Properties of generateCashFlowProjection\<close>

subsection \<open>The loop unrolled\<close>

lemma fst_loop_body: "fst (loop_body r s) = fst s + 1"
  by (cases s) (simp add: loop_body_def Let_def)

lemma for_loop_funpow:
  "for_loop r y s = (loop_body r ^^ nat (\<lfloor>y\<rfloor> + 1 - fst s)) s"
proof (induction r y s rule: for_loop.induct)
  case (1 r y yr c a p)
  show ?case
  proof (cases "of_int yr \<le> y")
    case True
    then have le: "yr \<le> \<lfloor>y\<rfloor>"
      by (simp add: le_floor_iff)
    then have n: "nat (\<lfloor>y\<rfloor> + 1 - yr) = Suc (nat (\<lfloor>y\<rfloor> + 1 - (yr + 1)))"
      by simp
    have "for_loop r y (yr, c, a, p) = for_loop r y (loop_body r (yr, c, a, p))"
      using True by (simp add: for_loop.simps)
    also have "\<dots> = (loop_body r ^^ nat (\<lfloor>y\<rfloor> + 1 - (yr + 1))) (loop_body r (yr, c, a, p))"
      using "1.IH" [OF True] by (simp add: fst_loop_body)
    also have "\<dots> = (loop_body r ^^ nat (\<lfloor>y\<rfloor> + 1 - yr)) (yr, c, a, p)"
      unfolding n by (simp add: funpow_swap1)
    finally show ?thesis by simp
  next
    case False
    then have "\<not> yr \<le> \<lfloor>y\<rfloor>"
      by (simp add: le_floor_iff)
    then have "nat (\<lfloor>y\<rfloor> + 1 - yr) = 0"
      by simp
    with False show ?thesis
      by (simp add: for_loop.simps)
  qed
qed

lemma loop_body_funpow:
  "(loop_body r ^^ k) (1, b, 0, []) =
     (1 + int k, b * (1 + r) ^ (k - 1), (\<Sum>j<k. b * (1 + r) ^ j), map (\<lambda>i. point_at b r (Suc i)) [0..<k])"
proof (induction k)
  case 0
  show ?case by simp
next
  case (Suc k)
  show ?case
  proof (cases k)
    case 0
    then show ?thesis
      by (simp add: loop_body_def Let_def point_at_def)
  next
    case (Suc m)
    with Suc.IH show ?thesis
      by (simp add: loop_body_def Let_def point_at_def algebra_simps)
  qed
qed

lemma generateCashFlowProjection_points:
  "generateCashFlowProjection results rv years =
     map (\<lambda>i. point_at (cashFlowMensual results * 12) (default_to 0 rv) (Suc i))
       [0..<nat \<lfloor>default_to 10 years\<rfloor>]"
  by (simp add: generateCashFlowProjection_def Let_def initial_state_def for_loop_funpow
      loop_body_funpow)

lemma currentRent_after_eq:
  "currentRent_after results r k = cashFlowMensual results * 12 * (1 + r) ^ (k - 1)"
  by (simp add: currentRent_after_def initial_state_def for_loop_funpow loop_body_funpow)

lemma sum_years: "(\<Sum>i = 1..k. b * (1 + r) ^ (i - 1)) = (\<Sum>j<k. b * (1 + r) ^ j)"
  for b r :: real
  by (induction k) simp_all

lemma generateCashFlowProjection_length_floor:
  "length (generateCashFlowProjection results rv years) = nat \<lfloor>default_to 10 years\<rfloor>"
  by (simp add: generateCashFlowProjection_points)

lemma generateCashFlowProjection_nth:
  assumes "1 \<le> k" and "k \<le> length (generateCashFlowProjection results rv years)"
  shows "generateCashFlowProjection results rv years ! (k - 1) =
           point_at (cashFlowMensual results * 12) (default_to 0 rv) k"
proof -
  from assms have "k - 1 < nat \<lfloor>default_to 10 years\<rfloor>" and "Suc (k - 1) = k"
    by (simp_all add: generateCashFlowProjection_length_floor)
  then show ?thesis
    by (simp add: generateCashFlowProjection_points)
qed

lemma upt_0_2: "[0..<2] = [0, Suc 0]"
  by (simp add: numeral_2_eq_2)

lemma upt_0_3: "[0..<3] = [0, Suc 0, Suc (Suc 0)]"
  by (simp add: numeral_3_eq_3)

subsection \<open>Length of the projection\<close>

text \<open>
  Claim C7.  The projection is empty when the horizon \<open>years\<close> is at most 0 and has
  \<open>years\<close> points when \<open>years\<close> is at least 1: \<open>n\<close> points for the integer horizon \<open>n\<close>,
  and \<open>\<lfloor>years\<rfloor>\<close> points for a fractional one.  An absent \<open>years\<close> is 10.
\<close>

theorem generateCashFlowProjection_length:
  "(default_to 10 years \<le> 0 \<longrightarrow> generateCashFlowProjection results rv years = []) \<and>
   (1 \<le> default_to 10 years \<longrightarrow>
      length (generateCashFlowProjection results rv years) = nat \<lfloor>default_to 10 years\<rfloor>) \<and>
   length (generateCashFlowProjection results rv (Some (real n))) = n"
proof (intro conjI impI)
  assume "default_to 10 years \<le> 0"
  then have "nat \<lfloor>default_to 10 years\<rfloor> = 0"
    by simp
  then have "length (generateCashFlowProjection results rv years) = 0"
    by (simp only: generateCashFlowProjection_length_floor)
  then show "generateCashFlowProjection results rv years = []"
    by simp
next
  show "length (generateCashFlowProjection results rv years) = nat \<lfloor>default_to 10 years\<rfloor>"
    by (rule generateCashFlowProjection_length_floor)
next
  show "length (generateCashFlowProjection results rv (Some (real n))) = n"
    by (simp add: generateCashFlowProjection_length_floor default_to_def)
qed

theorem generateCashFlowProjection_length_witness:
  "generateCashFlowProjection (calculateInvestment scenario) (Some (2 / 100)) (Some 0) = [] \<and>
   generateCashFlowProjection (calculateInvestment scenario) (Some (2 / 100)) (Some (- 2)) = [] \<and>
   length (generateCashFlowProjection (calculateInvestment scenario) (Some (2 / 100)) (Some 3)) = 3 \<and>
   length (generateCashFlowProjection (calculateInvestment scenario) (Some (2 / 100)) None) = 10"
  using generateCashFlowProjection_length [of "Some 0" "calculateInvestment scenario" "Some (2 / 100)"]
    generateCashFlowProjection_length [of "Some (- 2)" "calculateInvestment scenario" "Some (2 / 100)"]
    generateCashFlowProjection_length [of "Some 3" "calculateInvestment scenario" "Some (2 / 100)"]
    generateCashFlowProjection_length [of None "calculateInvestment scenario" "Some (2 / 100)"]
  by (simp add: default_to_def)

subsection \<open>Growth of the yearly cash flow\<close>

text \<open>
  Claim C8.  Before rounding, the cash flow of year 1 is \<open>cashFlowMensual * 12\<close>, and for
  \<open>k > 1\<close> the cash flow of year \<open>k\<close> is that of year \<open>k - 1\<close> times
  \<open>1 + revalorizacion\<close>, for any rate; the \<open>cashFlow\<close> of the \<open>k\<close>-th point is this figure
  rounded.
\<close>

theorem generateCashFlowProjection_growth:
  "currentRent_after results (default_to 0 rv) 1 = cashFlowMensual results * 12 \<and>
   (1 < k \<longrightarrow> currentRent_after results (default_to 0 rv) k =
      currentRent_after results (default_to 0 rv) (k - 1) * (1 + default_to 0 rv)) \<and>
   (1 \<le> k \<and> real k \<le> default_to 10 years \<longrightarrow>
      cashFlow (generateCashFlowProjection results rv years ! (k - 1)) =
        Math_round (currentRent_after results (default_to 0 rv) k))"
proof -
  have "currentRent_after results (default_to 0 rv) k =
      currentRent_after results (default_to 0 rv) (k - 1) * (1 + default_to 0 rv)" if "1 < k"
  proof -
    from that obtain m where "k = Suc (Suc m)"
      by (cases k; cases "k - 1") auto
    then show ?thesis
      by (simp add: currentRent_after_eq)
  qed
  moreover have "cashFlow (generateCashFlowProjection results rv years ! (k - 1)) =
        Math_round (currentRent_after results (default_to 0 rv) k)"
    if "1 \<le> k" and "real k \<le> default_to 10 years"
  proof -
    from that have "k \<le> nat \<lfloor>default_to 10 years\<rfloor>"
      by (simp add: le_nat_floor)
    with that have "k - 1 < nat \<lfloor>default_to 10 years\<rfloor>" and "Suc (k - 1) = k"
      by simp_all
    then show ?thesis
      by (simp add: generateCashFlowProjection_points currentRent_after_eq point_at_def)
  qed
  ultimately show ?thesis
    by (simp add: currentRent_after_eq)
qed

theorem generateCashFlowProjection_growth_witness:
  "currentRent_after (calculateInvestment (no_inputs\<lparr>cuotaAlquiler := Some 100\<rparr>)) (- 1 / 10) 1 = 1200 \<and>
   currentRent_after (calculateInvestment (no_inputs\<lparr>cuotaAlquiler := Some 100\<rparr>)) (- 1 / 10) 2 = 1080 \<and>
   cashFlow (generateCashFlowProjection
       (calculateInvestment (no_inputs\<lparr>cuotaAlquiler := Some 100\<rparr>)) (Some (- 1 / 10)) (Some 3) ! 1) = 1080"
proof -
  let ?r = "calculateInvestment (no_inputs\<lparr>cuotaAlquiler := Some 100\<rparr>)"
  note growth = generateCashFlowProjection_growth [of ?r "Some (- 1 / 10)" 2 "Some 3"]
  have one: "currentRent_after ?r (- 1 / 10) 1 = 1200"
    using growth by (simp add: default_to_def cashFlowMensual_rent_only)
  have two: "currentRent_after ?r (- 1 / 10) 2 = 1080"
    using growth one by (simp add: default_to_def)
  have "cashFlow (generateCashFlowProjection ?r (Some (- 1 / 10)) (Some 3) ! 1) = 1080"
    using growth two by (simp add: default_to_def)
  with one two show ?thesis
    by simp
qed

subsection \<open>The accumulated cash flow\<close>

text \<open>
  Claim C1, as the source has it.  The loop adds the unrounded \<^verbatim>\<open>currentRent\<close> to
  \<^verbatim>\<open>accumulatedCashFlow\<close> and rounds the sum when it pushes the point: \<open>accumulated\<close> of
  year \<open>k\<close> is the rounded sum of the unrounded cash flows of the years 1 to \<open>k\<close>
  (sum, then round).  For a monthly cash flow of 100, a rate of 0.02 and 3 years the
  yearly figures are 1200, 1224, 1248 and the accumulated ones 1200, 2424, 3672.
\<close>

theorem generateCashFlowProjection_accumulated:
  "(1 \<le> k \<and> k \<le> length (generateCashFlowProjection results rv years) \<longrightarrow>
      cashFlow (generateCashFlowProjection results rv years ! (k - 1)) =
        Math_round (currentRent_after results (default_to 0 rv) k) \<and>
      accumulated (generateCashFlowProjection results rv years ! (k - 1)) =
        Math_round (\<Sum>i = 1..k. currentRent_after results (default_to 0 rv) i)) \<and>
   map cashFlow
     (generateCashFlowProjection (calculateInvestment (no_inputs\<lparr>cuotaAlquiler := Some 100\<rparr>))
        (Some (2 / 100)) (Some 3)) = [1200, 1224, 1248] \<and>
   map accumulated
     (generateCashFlowProjection (calculateInvestment (no_inputs\<lparr>cuotaAlquiler := Some 100\<rparr>))
        (Some (2 / 100)) (Some 3)) = [1200, 2424, 3672]"
proof (intro conjI impI)
  assume "1 \<le> k \<and> k \<le> length (generateCashFlowProjection results rv years)"
  then have k: "1 \<le> k" "k \<le> length (generateCashFlowProjection results rv years)"
    by simp_all
  show "cashFlow (generateCashFlowProjection results rv years ! (k - 1)) =
        Math_round (currentRent_after results (default_to 0 rv) k)"
    by (simp only: generateCashFlowProjection_nth [OF k] currentRent_after_eq point_at_def
        point.simps)
  show "accumulated (generateCashFlowProjection results rv years ! (k - 1)) =
        Math_round (\<Sum>i = 1..k. currentRent_after results (default_to 0 rv) i)"
    by (simp only: generateCashFlowProjection_nth [OF k] currentRent_after_eq point_at_def
        point.simps sum_years)
next
  have "generateCashFlowProjection (calculateInvestment (no_inputs\<lparr>cuotaAlquiler := Some 100\<rparr>))
        (Some (2 / 100)) (Some 3) = map (\<lambda>i. point_at 1200 (2 / 100) (Suc i)) [0, Suc 0, Suc (Suc 0)]"
    by (simp add: generateCashFlowProjection_points cashFlowMensual_rent_only default_to_def upt_0_3)
  then show "map cashFlow
     (generateCashFlowProjection (calculateInvestment (no_inputs\<lparr>cuotaAlquiler := Some 100\<rparr>))
        (Some (2 / 100)) (Some 3)) = [1200, 1224, 1248]"
    and "map accumulated
     (generateCashFlowProjection (calculateInvestment (no_inputs\<lparr>cuotaAlquiler := Some 100\<rparr>))
        (Some (2 / 100)) (Some 3)) = [1200, 2424, 3672]"
    by (simp_all add: point_at_def lessThan_Suc power2_eq_square)
qed

theorem generateCashFlowProjection_accumulated_witness:
  "accumulated
     (generateCashFlowProjection (calculateInvestment (no_inputs\<lparr>cuotaAlquiler := Some 100\<rparr>))
        (Some (2 / 100)) (Some 3) ! 2) =
   Math_round (\<Sum>i = 1..3. currentRent_after
       (calculateInvestment (no_inputs\<lparr>cuotaAlquiler := Some 100\<rparr>)) (2 / 100) i)"
proof -
  let ?g = "generateCashFlowProjection
     (calculateInvestment (no_inputs\<lparr>cuotaAlquiler := Some 100\<rparr>)) (Some (2 / 100)) (Some 3)"
  have "length ?g = 3"
    by (simp add: generateCashFlowProjection_length_floor default_to_def)
  then have "1 \<le> (3::nat) \<and> 3 \<le> length ?g"
    by simp
  with generateCashFlowProjection_accumulated
    [of 3 "calculateInvestment (no_inputs\<lparr>cuotaAlquiler := Some 100\<rparr>)" "Some (2 / 100)" "Some 3"]
  show ?thesis
    by (simp add: default_to_def)
qed

text \<open>
  Claim C1, as the specification words it (each yearly figure rounded, then summed),
  fails: for a monthly cash flow of 100.04, no growth and 2 years, both yearly figures
  are \<open>round 1200.48 = 1200\<close>, while \<open>accumulated\<close> of year 2 is
  \<open>round 2400.96 = 2401\<close>, not \<open>1200 + 1200\<close>.
\<close>

theorem round_then_sum_counterexample:
  "map cashFlow
     (generateCashFlowProjection
        (calculateInvestment (no_inputs\<lparr>cuotaAlquiler := Some (10004 / 100)\<rparr>))
        (Some 0) (Some 2)) = [1200, 1200] \<and>
   map accumulated
     (generateCashFlowProjection
        (calculateInvestment (no_inputs\<lparr>cuotaAlquiler := Some (10004 / 100)\<rparr>))
        (Some 0) (Some 2)) = [1200, 2401] \<and>
   accumulated
     (generateCashFlowProjection
        (calculateInvestment (no_inputs\<lparr>cuotaAlquiler := Some (10004 / 100)\<rparr>))
        (Some 0) (Some 2) ! 1) \<noteq>
   cashFlow
     (generateCashFlowProjection
        (calculateInvestment (no_inputs\<lparr>cuotaAlquiler := Some (10004 / 100)\<rparr>))
        (Some 0) (Some 2) ! 0) +
   cashFlow
     (generateCashFlowProjection
        (calculateInvestment (no_inputs\<lparr>cuotaAlquiler := Some (10004 / 100)\<rparr>))
        (Some 0) (Some 2) ! 1)"
proof -
  have "generateCashFlowProjection
        (calculateInvestment (no_inputs\<lparr>cuotaAlquiler := Some (10004 / 100)\<rparr>))
        (Some 0) (Some 2) = map (\<lambda>i. point_at (10004 / 100 * 12) 0 (Suc i)) [0, Suc 0]"
    by (simp add: generateCashFlowProjection_points cashFlowMensual_rent_only default_to_def upt_0_2)
  then show ?thesis
    by (simp add: point_at_def lessThan_Suc)
qed

section \<open>Properties of getItpRate\<close>

text \<open>
  On a key of the table \<^verbatim>\<open>getItpRate\<close> returns the stored rate (no stored rate is 0, so
  \<^verbatim>\<open>||\<close> never replaces one), and on a name that is neither a key nor a member of
  \<^verbatim>\<open>Object.prototype\<close> it returns 0.08.
\<close>

lemma itpTable_nonzero: "(c, v) \<in> set itpTable \<Longrightarrow> v \<noteq> 0"
  by (auto simp add: itpTable_def)

lemma getItpRate_own_key:
  assumes "map_of itpTable community = Some v"
  shows "getItpRate community = Number v"
proof -
  from assms have "v \<noteq> 0"
    by (blast dest: map_of_SomeD itpTable_nonzero)
  with assms show ?thesis
    by (simp add: getItpRate_def get_property_def)
qed

lemma getItpRate_fallback:
  assumes "community \<notin> set communities" and "community \<notin> set Object_prototype"
  shows "getItpRate community = Number (8 / 100)"
proof -
  from assms(1) have "map_of itpTable community = None"
    by (simp add: communities_def map_of_eq_None_iff)
  with assms(2) show ?thesis
    by (simp add: getItpRate_def get_property_def)
qed

text \<open>
  Claim C9 says that every name that is not a key of the table yields the rate 0.08.
  The name \<^verbatim>\<open>toString\<close> is not a key, yet \<^verbatim>\<open>itpTable['toString']\<close> is the function
  inherited from \<^verbatim>\<open>Object.prototype\<close>, which is truthy: \<^verbatim>\<open>getItpRate\<close> returns that
  function, not a rate.
\<close>

theorem getItpRate_inherited_name:
  "''toString'' \<notin> set communities \<and> getItpRate ''toString'' = Inherited ''toString'' \<and>
   getItpRate ''toString'' \<noteq> Number (8 / 100)"
proof -
  have n: "''toString'' \<notin> set communities"
    by (simp add: communities_def itpTable_def)
  then have "map_of itpTable ''toString'' = None"
    by (simp add: communities_def map_of_eq_None_iff)
  then have "getItpRate ''toString'' = Inherited ''toString''"
    by (simp add: getItpRate_def get_property_def Object_prototype_def)
  with n show ?thesis
    by simp
qed

lemma getItpRate_examples:
  "getItpRate ''Canarias'' = Number (65 / 1000) \<and>
   getItpRate (''Catalu'' @ [CHR 0xC3, CHR 0xB1] @ ''a'') = Number (10 / 100) \<and>
   getItpRate ''Atlantis'' = Number (8 / 100)"
  by (simp add: getItpRate_def get_property_def itpTable_def Object_prototype_def)

end
